theory Spec2Isabelle
  imports Main
begin

section \<open>The remotes of backend/remote\_object.py\<close>

text \<open>
  The module drives GPIO devices of a Raspberry Pi: a \<open>RemoteAbstract\<close> owns one
  device on one pin, \<open>SimpleOutput\<close>, \<open>SimpleInput\<close>, \<open>MotionSensor\<close> and \<open>Switch\<close>
  specialise it, and \<open>AlarmSystem\<close> composes a switch, a buzzer and a motion sensor with
  two rate limiters. Every method is a function from the object and the outside world to
  the object and the world after the call, together with the exception the call raised,
  if any: a Python exception leaves the mutations made before it in place, so the state
  is returned on the error path too.

  The methods that touch the hardware branch on \<open>__debug__\<close>. The definitions below
  are the hardware-enabled program (\<open>__debug__\<close> true), the mode in which the devices
  exist; the constructor of \<open>Switch\<close>, whose other branch does not even reach its
  superclass, takes the flag explicitly. Reading a sensor, driving an output and releasing
  a device follow the contract the specification gives the GPIO binding: of the four
  operations only acquiring a pin can fail.
\<close>

subsection \<open>Values and exceptions\<close>

datatype pyval = PNone | PBool bool | PInt int | PStr string | PPhoto nat

text \<open>What the GPIO library's device constructor raises: one of its own
  \<open>GPIOZeroError\<close>s, or any other exception.\<close>

datatype gpio_failure = GPIOZeroError string | OtherException string

text \<open>What the module's methods raise. \<open>Exception\<close> stands for an exception the
  module re-raises unchanged (\<open>except Exception as e: raise e\<close>).\<close>

datatype error = ValueError string | Exception string | AttributeError string

datatype device_class = GPIODevice | OutputDevice | Motion | Button

subsection \<open>The outside world: pins, clock, camera, mail\<close>

record gpio_device =
  dev_id :: nat
  dev_class :: device_class
  dev_pin :: int

text \<open>
  \<open>platform\<close> decides whether the library accepts a new device of a class on a pin, given
  the pins of the devices open at that moment; \<open>open_devices\<close> are the devices that hold
  a pin; \<open>sensed\<close> is what an input pin reads and \<open>level\<close> what an output pin drives.
  \<open>clock\<close> is the sequence of values successive clock readings return, in whole
  seconds, and \<open>reads\<close> the number of readings made so far. \<open>album\<close> holds the photos
  captured (newest first), \<open>outbox\<close> the recipient lists of the mails sent (oldest first).
\<close>

record world =
  platform :: "int list \<Rightarrow> device_class \<Rightarrow> int \<Rightarrow> gpio_failure option"
  open_devices :: "gpio_device list"
  opened :: nat
  sensed :: "int \<Rightarrow> bool"
  level :: "int \<Rightarrow> bool"
  clock :: "nat \<Rightarrow> int"
  reads :: nat
  format_c :: "int \<Rightarrow> string"
  album :: "nat list"
  outbox :: "string list list"

text \<open>Modelled from the spec: the GPIO binding collaborator of section 6 (the gpiozero
  library is not part of the repository): \<open>acquire(pin) -> handle | error\<close>. A device that
  is refused changes nothing; an accepted one holds its pin until it is released.\<close>

definition gpio_open :: "device_class \<Rightarrow> int \<Rightarrow> world \<Rightarrow> (gpio_failure + gpio_device) \<times> world" where
  "gpio_open T p w =
     (case platform w (map dev_pin (open_devices w)) T p of
        Some f \<Rightarrow> (Inl f, w)
      | None \<Rightarrow>
          (let d = \<lparr>dev_id = opened w, dev_class = T, dev_pin = p\<rparr>
           in (Inr d, w\<lparr>open_devices := d # open_devices w, opened := Suc (opened w)\<rparr>)))"

text \<open>Modelled from the spec: \<open>handle.release()\<close> of the GPIO binding, safe to call
  more than once.\<close>

definition gpio_close :: "gpio_device \<Rightarrow> world \<Rightarrow> world" where
  "gpio_close d w = w\<lparr>open_devices := removeAll d (open_devices w)\<rparr>"

text \<open>Modelled from the spec: \<open>handle.isActive() -> bool\<close> of the GPIO binding.\<close>

definition gpio_is_active :: "gpio_device \<Rightarrow> world \<Rightarrow> bool" where
  "gpio_is_active d w = sensed w (dev_pin d)"

text \<open>Modelled from the spec: \<open>handle.setLevel(bool)\<close> of the GPIO binding.\<close>

definition gpio_set_level :: "gpio_device \<Rightarrow> bool \<Rightarrow> world \<Rightarrow> world" where
  "gpio_set_level d b w = w\<lparr>level := (level w)(dev_pin d := b)\<rparr>"

text \<open>\<open>int(time.time())\<close>: one reading of the clock.\<close>

definition time_time :: "world \<Rightarrow> int \<times> world" where
  "time_time w = (clock w (reads w), w\<lparr>reads := Suc (reads w)\<rparr>)"

text \<open>\<open>time.strftime("%c")\<close>: one reading of the clock, formatted by the
  library.\<close>

definition time_strftime :: "world \<Rightarrow> string \<times> world" where
  "time_strftime w = (format_c w (clock w (reads w)), w\<lparr>reads := Suc (reads w)\<rparr>)"

text \<open>Modelled from the spec: \<open>capture() -> void\<close> of the photo service of section 6
  (backend/camera.py is not among the sources). Photos are numbered in the order of
  capture.\<close>

definition camera_take_photo :: "world \<Rightarrow> world" where
  "camera_take_photo w = w\<lparr>album := length (album w) # album w\<rparr>"

text \<open>Modelled from the spec: \<open>latest() -> photo reference (nullable)\<close> of the photo
  service of section 6.\<close>

definition get_newest_photo :: "world \<Rightarrow> pyval" where
  "get_newest_photo w = (case album w of [] \<Rightarrow> PNone | p # _ \<Rightarrow> PPhoto p)"

text \<open>Modelled from the spec: \<open>send(recipients: list<string>)\<close> of the email sender of
  section 6 (backend/emailer.py is not among the sources).\<close>

definition emailer_send_email :: "string list \<Rightarrow> world \<Rightarrow> world" where
  "emailer_send_email rcpts w = w\<lparr>outbox := outbox w @ [rcpts]\<rparr>"

text \<open>Modelled from the spec: \<open>update(record: mapping, matchPredicate)\<close> of the
  persistence store of section 6. The store is the list of the updates it received, each
  with the pin its predicate \<open>query["pin"] == pin\<close> matches.\<close>

type_synonym database = "(int \<times> (string \<rightharpoonup> pyval)) list"

definition database_update :: "(string \<rightharpoonup> pyval) \<Rightarrow> int \<Rightarrow> database \<Rightarrow> database" where
  "database_update dic p db = db @ [(p, dic)]"

subsection \<open>RemoteAbstract\<close>

text \<open>The \<open>data\<close> dictionary a remote receives: its \<open>"pin"\<close>, and \<open>"keep_on"\<close> when the
  key is present.\<close>

record remote_data =
  d_pin :: int
  d_keep_on :: "bool option"

record RemoteAbstract =
  pin :: int
  Type :: device_class
  device :: gpio_device

definition RemoteAbstract_init ::
  "remote_data \<Rightarrow> device_class option \<Rightarrow> world \<Rightarrow> (error + RemoteAbstract) \<times> world" where
  "RemoteAbstract_init dic Ty w =
     (let T = (case Ty of None \<Rightarrow> GPIODevice | Some T' \<Rightarrow> T') in
      case gpio_open T (d_pin dic) w of
        (Inl (GPIOZeroError msg), w') \<Rightarrow> (Inl (ValueError msg), w')
      | (Inl (OtherException msg), w') \<Rightarrow> (Inl (Exception msg), w')
      | (Inr d, w') \<Rightarrow> (Inr \<lparr>pin = d_pin dic, Type = T, device = d\<rparr>, w'))"

definition RemoteAbstract_close :: "'a RemoteAbstract_scheme \<Rightarrow> world \<Rightarrow> world" where
  "RemoteAbstract_close s w = gpio_close (device s) w"

text \<open>\<open>_change_pin\<close> ignores its argument: it re-opens the device on \<open>self.pin\<close>,
  which \<open>input\<close> has already set.\<close>

definition RemoteAbstract_change_pin ::
  "'a RemoteAbstract_scheme \<Rightarrow> int \<Rightarrow> world \<Rightarrow> error option \<times> 'a RemoteAbstract_scheme \<times> world" where
  "RemoteAbstract_change_pin s new_pin w =
     (let w1 = RemoteAbstract_close s w in
      case gpio_open (Type s) (pin s) w1 of
        (Inl (GPIOZeroError msg), w2) \<Rightarrow> (Some (ValueError msg), s, w2)
      | (Inl (OtherException msg), w2) \<Rightarrow> (Some (Exception msg), s, w2)
      | (Inr d, w2) \<Rightarrow> (None, s\<lparr>device := d\<rparr>, w2))"

definition RemoteAbstract_input ::
  "'a RemoteAbstract_scheme \<Rightarrow> remote_data \<Rightarrow> world \<Rightarrow> error option \<times> 'a RemoteAbstract_scheme \<times> world" where
  "RemoteAbstract_input s dat w =
     (if pin s \<noteq> d_pin dat
      then (let s1 = s\<lparr>pin := d_pin dat\<rparr> in RemoteAbstract_change_pin s1 (pin s1) w)
      else (None, s, w))"

definition RemoteAbstract_output ::
  "'a RemoteAbstract_scheme \<Rightarrow> database \<Rightarrow> (string \<rightharpoonup> pyval) option \<Rightarrow> database" where
  "RemoteAbstract_output s db dat =
     (case dat of None \<Rightarrow> db | Some dic \<Rightarrow> database_update dic (pin s) db)"

subsection \<open>SimpleOutput\<close>

type_synonym SimpleOutput = RemoteAbstract

definition SimpleOutput_init :: "remote_data \<Rightarrow> world \<Rightarrow> (error + SimpleOutput) \<times> world" where
  "SimpleOutput_init dic w = RemoteAbstract_init dic (Some OutputDevice) w"

definition SimpleOutput_on :: "SimpleOutput \<Rightarrow> world \<Rightarrow> world" where
  "SimpleOutput_on s w = gpio_set_level (device s) True w"

definition SimpleOutput_off :: "SimpleOutput \<Rightarrow> world \<Rightarrow> world" where
  "SimpleOutput_off s w = gpio_set_level (device s) False w"

definition SimpleOutput_input ::
  "SimpleOutput \<Rightarrow> remote_data \<Rightarrow> world \<Rightarrow> error option \<times> SimpleOutput \<times> world" where
  "SimpleOutput_input s dat w =
     (case RemoteAbstract_input s dat w of
        (Some e, s1, w1) \<Rightarrow> (Some e, s1, w1)
      | (None, s1, w1) \<Rightarrow>
          (case d_keep_on dat of
             None \<Rightarrow> (None, s1, w1)
           | Some k \<Rightarrow> (None, s1, if k then SimpleOutput_on s1 w1 else SimpleOutput_off s1 w1)))"

subsection \<open>SimpleInput, MotionSensor, Switch\<close>

record SimpleInput = RemoteAbstract +
  data :: pyval

definition SimpleInput_init ::
  "remote_data \<Rightarrow> device_class option \<Rightarrow> world \<Rightarrow> (error + SimpleInput) \<times> world" where
  "SimpleInput_init dic Ty w =
     (case RemoteAbstract_init dic Ty w of
        (Inl e, w') \<Rightarrow> (Inl e, w')
      | (Inr r, w') \<Rightarrow>
          (Inr \<lparr>pin = pin r, Type = Type r, device = device r, data = PNone\<rparr>, w'))"

definition SimpleInput_is_active :: "SimpleInput \<Rightarrow> world \<Rightarrow> bool" where
  "SimpleInput_is_active s w = gpio_is_active (device s) w"

definition SimpleInput_output ::
  "SimpleInput \<Rightarrow> database \<Rightarrow> (string \<rightharpoonup> pyval) option \<Rightarrow> database" where
  "SimpleInput_output s db dat =
     (let dat1 = (case dat of None \<Rightarrow> [''data'' \<mapsto> data s] | Some dic \<Rightarrow> dic)
      in RemoteAbstract_output s db (Some dat1))"

definition MotionSensor_init :: "remote_data \<Rightarrow> world \<Rightarrow> (error + SimpleInput) \<times> world" where
  "MotionSensor_init dic w = SimpleInput_init dic (Some Motion) w"

definition MotionSensor_output ::
  "SimpleInput \<Rightarrow> database \<Rightarrow> world \<Rightarrow> SimpleInput \<times> database \<times> world" where
  "MotionSensor_output s db w =
     (let (s1, w1) =
            (if SimpleInput_is_active s w
             then (let (now, w') = time_time w in (s\<lparr>data := PInt now\<rparr>, w'))
             else (s, w))
      in (s1, SimpleInput_output s1 db None, w1))"

text \<open>
  Attribute lookup for \<open>super()\<close> inside \<open>Switch\<close>: the classes after \<open>Switch\<close> in its
  method resolution order, each with the names its class body defines (for \<open>object\<close>,
  its built-in attributes). Inside a class body, a name that starts with two underscores
  and does not end with two is mangled with the class name.
\<close>

definition Switch_supers :: "(string \<times> string list) list" where
  "Switch_supers =
     [(''SimpleInput'', [''__init__'', ''is_active'', ''output'', ''to_dic'']),
      (''RemoteAbstract'',
         [''__init__'', ''close'', ''_change_pin'', ''input'', ''output'', ''Form'']),
      (''RemoteInterface'', [''close'', ''input'', ''output'', ''Form'', ''to_dic'']),
      (''object'',
         [''__class__'', ''__delattr__'', ''__dir__'', ''__doc__'', ''__eq__'',
          ''__format__'', ''__ge__'', ''__getattribute__'', ''__gt__'', ''__hash__'',
          ''__init__'', ''__init_subclass__'', ''__le__'', ''__lt__'', ''__ne__'',
          ''__new__'', ''__reduce__'', ''__reduce_ex__'', ''__repr__'', ''__setattr__'',
          ''__sizeof__'', ''__str__'', ''__subclasshook__''])]"

definition mangle :: "string \<Rightarrow> string \<Rightarrow> string" where
  "mangle cls name =
     (if take 2 name = ''__'' \<and> drop (length name - 2) name \<noteq> ''__''
      then ''_'' @ dropWhile (\<lambda>c. c = CHR ''_'') cls @ name
      else name)"

definition super_lookup :: "string \<Rightarrow> string option" where
  "super_lookup name =
     map_option fst (find (\<lambda>(c, attrs). name \<in> set attrs) Switch_supers)"

text \<open>With \<open>__debug__\<close> false the constructor evaluates \<open>super().__init(dic)\<close>, not
  \<open>super().__init__(dic)\<close>: the attribute lookup raises before anything is
  constructed.\<close>

definition Switch_init :: "bool \<Rightarrow> remote_data \<Rightarrow> world \<Rightarrow> (error + SimpleInput) \<times> world" where
  "Switch_init debug dic w =
     (if debug then SimpleInput_init dic (Some Button) w
      else (Inl (AttributeError (mangle ''Switch'' ''__init'')), w))"

definition Switch_output ::
  "SimpleInput \<Rightarrow> database \<Rightarrow> world \<Rightarrow> SimpleInput \<times> database \<times> world" where
  "Switch_output s db w =
     (let s1 = (if SimpleInput_is_active s w then s\<lparr>data := PStr ''ON''\<rparr>
                else s\<lparr>data := PStr ''OFF''\<rparr>)
      in (s1, SimpleInput_output s1 db None, w))"

subsection \<open>AlarmSystem\<close>

text \<open>The configuration record the alarm is built from and fed with, with the fields
  \<open>AlarmSystem.to_dic\<close> fills from the validated form that the alarm reads.\<close>

record alarm_dic =
  dic_pin :: int
  dic_pin_buzzer :: int
  dic_pin_motion :: int
  dic_emails :: string
  dic_keep_on :: bool
  dic_photo_toggle :: bool

record AlarmSystem =
  alarm_pin :: int
  switch :: SimpleInput
  buzzer :: SimpleOutput
  motion :: SimpleInput
  emails :: string
  keep_on :: bool
  photo_toggle :: bool
  motion_detected :: bool
  door_open :: bool
  last_email_sent :: "int option"
  last_picture_taken :: "int option"

text \<open>\<open>EMAIL_MAX_TIME\<close> and \<open>PHOTO_MAX_TIME\<close> are attributes the constructor sets and
  nothing assigns again.\<close>

definition EMAIL_MAX_TIME :: int where
  "EMAIL_MAX_TIME = 3600"

definition PHOTO_MAX_TIME :: int where
  "PHOTO_MAX_TIME = 3"

text \<open>The sub-constructors already turn a \<open>GPIOZeroError\<close> into a \<open>ValueError\<close>, which
  the constructor's second handler re-raises as it is. No handler releases anything.\<close>

definition AlarmSystem_init :: "alarm_dic \<Rightarrow> world \<Rightarrow> (error + AlarmSystem) \<times> world" where
  "AlarmSystem_init dic w =
     (case Switch_init True \<lparr>d_pin = dic_pin dic, d_keep_on = None\<rparr> w of
        (Inl e, w1) \<Rightarrow> (Inl e, w1)
      | (Inr sw, w1) \<Rightarrow>
     (case SimpleOutput_init \<lparr>d_pin = dic_pin_buzzer dic, d_keep_on = None\<rparr> w1 of
        (Inl e, w2) \<Rightarrow> (Inl e, w2)
      | (Inr bz, w2) \<Rightarrow>
     (case MotionSensor_init \<lparr>d_pin = dic_pin_motion dic, d_keep_on = None\<rparr> w2 of
        (Inl e, w3) \<Rightarrow> (Inl e, w3)
      | (Inr mo, w3) \<Rightarrow>
          (Inr \<lparr>alarm_pin = dic_pin dic, switch = sw, buzzer = bz, motion = mo,
                emails = dic_emails dic, keep_on = dic_keep_on dic,
                photo_toggle = dic_photo_toggle dic,
                motion_detected = False, door_open = False,
                last_email_sent = None, last_picture_taken = None\<rparr>, w3))))"

definition take_photo :: "AlarmSystem \<Rightarrow> world \<Rightarrow> AlarmSystem \<times> world" where
  "take_photo a w =
     (let w1 = camera_take_photo w; (now, w2) = time_time w1
      in (a\<lparr>last_picture_taken := Some now\<rparr>, w2))"

text \<open>\<open>str.split(",")\<close>: the pieces between the commas, empty ones included; never an
  empty list.\<close>

fun split :: "char \<Rightarrow> string \<Rightarrow> string list" where
  "split sep [] = [[]]"
| "split sep (c # cs) =
     (if c = sep then [] # split sep cs
      else (case split sep cs of [] \<Rightarrow> [[c]] | p # ps \<Rightarrow> (c # p) # ps))"

definition send_email :: "AlarmSystem \<Rightarrow> world \<Rightarrow> AlarmSystem \<times> world" where
  "send_email a w =
     (let w1 = emailer_send_email (split CHR '','' (filter (\<lambda>c. c \<noteq> CHR '' '') (emails a))) w;
          (now, w2) = time_time w1
      in (a\<lparr>last_email_sent := Some now\<rparr>, w2))"

text \<open>The clock is read for a limiter only when its timestamp is set (\<open>or\<close> evaluates
  its second operand only then).\<close>

definition alert_mode :: "AlarmSystem \<Rightarrow> world \<Rightarrow> AlarmSystem \<times> world" where
  "alert_mode a w =
     (let w1 = SimpleOutput_on (buzzer a) w;
          (due_email, w2) =
             (case last_email_sent a of
                None \<Rightarrow> (True, w1)
              | Some t \<Rightarrow> (let (now, w') = time_time w1 in (now - t > EMAIL_MAX_TIME, w')));
          (a1, w3) = (if due_email then send_email a w2 else (a, w2));
          (due_photo, w4) =
             (case last_picture_taken a1 of
                None \<Rightarrow> (True, w3)
              | Some t \<Rightarrow> (let (now, w') = time_time w3 in (now - t > PHOTO_MAX_TIME, w')))
      in if due_photo then take_photo a1 w4 else (a1, w4))"

definition passive_mode :: "AlarmSystem \<Rightarrow> world \<Rightarrow> AlarmSystem \<times> world" where
  "passive_mode a w =
     (let a1 = (if last_email_sent a \<noteq> None then a\<lparr>last_email_sent := None\<rparr> else a)
      in (a1, SimpleOutput_off (buzzer a1) w))"

text \<open>An exception raised while a sub-device is re-bound leaves \<open>input\<close> at once, with
  the sub-devices as they are at that moment.\<close>

definition AlarmSystem_input ::
  "AlarmSystem \<Rightarrow> alarm_dic \<Rightarrow> world \<Rightarrow> error option \<times> AlarmSystem \<times> world" where
  "AlarmSystem_input a dat w =
     (case RemoteAbstract_input (switch a) \<lparr>d_pin = dic_pin dat, d_keep_on = None\<rparr> w of
        (Some e, sw, w1) \<Rightarrow> (Some e, a\<lparr>switch := sw\<rparr>, w1)
      | (None, sw, w1) \<Rightarrow>
     (case SimpleOutput_input (buzzer a) \<lparr>d_pin = dic_pin_buzzer dat, d_keep_on = None\<rparr> w1 of
        (Some e, bz, w2) \<Rightarrow> (Some e, a\<lparr>switch := sw, buzzer := bz\<rparr>, w2)
      | (None, bz, w2) \<Rightarrow>
     (case RemoteAbstract_input (motion a) \<lparr>d_pin = dic_pin_motion dat, d_keep_on = None\<rparr> w2 of
        (Some e, mo, w3) \<Rightarrow> (Some e, a\<lparr>switch := sw, buzzer := bz, motion := mo\<rparr>, w3)
      | (None, mo, w3) \<Rightarrow>
          (let a1 = a\<lparr>switch := sw, buzzer := bz, motion := mo\<rparr>;
               a2 = a1\<lparr>emails := dic_emails dat\<rparr>;
               a3 = a2\<lparr>keep_on := dic_keep_on dat\<rparr>;
               a4 = a3\<lparr>door_open := \<not> SimpleInput_is_active (switch a3) w3\<rparr>;
               a5 = a4\<lparr>motion_detected := SimpleInput_is_active (motion a4) w3\<rparr>;
               (a6, w4) =
                  (if dic_photo_toggle dat \<noteq> photo_toggle a5
                   then (let (a', w') = take_photo a5 w3
                         in (a'\<lparr>photo_toggle := dic_photo_toggle dat\<rparr>, w'))
                   else (a5, w3));
               (a7, w5) =
                  (if keep_on a6 \<and> door_open a6 then alert_mode a6 w4
                   else passive_mode a6 w4)
           in (None, a7, w5)))))"

definition AlarmSystem_output ::
  "AlarmSystem \<Rightarrow> database \<Rightarrow> world \<Rightarrow> AlarmSystem \<times> database \<times> world" where
  "AlarmSystem_output a db w =
     (let dic0 = [''door_open'' \<mapsto> PBool (door_open a)];
          (dic1, a1, w1) =
             (if motion_detected a
              then (let (stamp, w') = time_strftime w; (a', w'') = take_photo a w'
                    in (dic0(''motion'' \<mapsto> PStr stamp), a', w''))
              else (dic0, a, w));
          dic2 = dic1(''photo'' \<mapsto> get_newest_photo w1)
      in (a1, database_update dic2 (alarm_pin a1) db, w1))"

definition AlarmSystem_close :: "AlarmSystem \<Rightarrow> world \<Rightarrow> world" where
  "AlarmSystem_close a w =
     RemoteAbstract_close (motion a) (RemoteAbstract_close (buzzer a) (RemoteAbstract_close (switch a) w))"

subsection \<open>Concrete inputs\<close>

text \<open>A platform that refuses a pin some open device holds, and accepts every other
  request.\<close>

definition exclusive_platform :: "int list \<Rightarrow> device_class \<Rightarrow> int \<Rightarrow> gpio_failure option" where
  "exclusive_platform held T p =
     (if p \<in> set held then Some (GPIOZeroError ''pin in use'') else None)"

text \<open>A fresh world: nothing open, every input pin inactive (so the door reads open),
  a clock that advances one second per reading from 1000.\<close>

definition world0 :: world where
  "world0 = \<lparr>platform = exclusive_platform, open_devices = [], opened = 0,
       sensed = (\<lambda>_. False), level = (\<lambda>_. False), clock = (\<lambda>n. 1000 + int n), reads = 0,
       format_c = (\<lambda>_. ''Wed Nov  4 01:22:00 2026''), album = [], outbox = []\<rparr>"

definition dic0 :: alarm_dic where
  "dic0 = \<lparr>dic_pin = 4, dic_pin_buzzer = 5, dic_pin_motion = 6, dic_emails = ''a@b.c, d@e.f'',
       dic_keep_on = True, dic_photo_toggle = False\<rparr>"

text \<open>The alarm and the world after \<open>AlarmSystem(dic0)\<close> and one \<open>input(dic0)\<close> in
  \<open>world0\<close> (lemma \<open>alarm1_reached\<close>): armed, door open, buzzer on, one mail and one
  photo.\<close>

definition alarm1 :: AlarmSystem where
  "alarm1 =
     \<lparr>alarm_pin = 4,
      switch = \<lparr>pin = 4, Type = Button,
                device = \<lparr>dev_id = 0, dev_class = Button, dev_pin = 4\<rparr>, data = PNone\<rparr>,
      buzzer = \<lparr>pin = 5, Type = OutputDevice,
                device = \<lparr>dev_id = 1, dev_class = OutputDevice, dev_pin = 5\<rparr>\<rparr>,
      motion = \<lparr>pin = 6, Type = Motion,
                device = \<lparr>dev_id = 2, dev_class = Motion, dev_pin = 6\<rparr>, data = PNone\<rparr>,
      emails = ''a@b.c, d@e.f'', keep_on = True, photo_toggle = False,
      motion_detected = False, door_open = True,
      last_email_sent = Some 1000, last_picture_taken = Some 1001\<rparr>"

definition world1 :: world where
  "world1 =
     \<lparr>platform = exclusive_platform,
      open_devices = [\<lparr>dev_id = 2, dev_class = Motion, dev_pin = 6\<rparr>,
                      \<lparr>dev_id = 1, dev_class = OutputDevice, dev_pin = 5\<rparr>,
                      \<lparr>dev_id = 0, dev_class = Button, dev_pin = 4\<rparr>],
      opened = 3, sensed = (\<lambda>_. False), level = (\<lambda>_. False)(5 := True),
      clock = (\<lambda>n. 1000 + int n), reads = 2,
      format_c = (\<lambda>_. ''Wed Nov  4 01:22:00 2026''), album = [0],
      outbox = [[''a@b.c'', ''d@e.f'']]\<rparr>"

section \<open>Auxiliary facts\<close>

lemmas init_defs =
  AlarmSystem_init_def Switch_init_def SimpleInput_init_def RemoteAbstract_init_def
  SimpleOutput_init_def MotionSensor_init_def

lemmas gpio_defs =
  gpio_open_def gpio_close_def gpio_is_active_def gpio_set_level_def

lemmas input_defs =
  AlarmSystem_input_def RemoteAbstract_input_def RemoteAbstract_change_pin_def
  RemoteAbstract_close_def SimpleOutput_input_def SimpleInput_is_active_def

lemmas mode_defs =
  take_photo_def alert_mode_def passive_mode_def send_email_def time_time_def
  camera_take_photo_def emailer_send_email_def SimpleOutput_on_def SimpleOutput_off_def
  EMAIL_MAX_TIME_def PHOTO_MAX_TIME_def

lemma alarm1_reached:
  "\<exists>a0 w0. AlarmSystem_init dic0 world0 = (Inr a0, w0) \<and>
           AlarmSystem_input a0 dic0 w0 = (None, alarm1, world1)"
  by (simp add: init_defs gpio_defs input_defs mode_defs exclusive_platform_def
      world0_def dic0_def alarm1_def world1_def Let_def)

text \<open>Re-binding a pin touches the open devices only.\<close>

lemma RemoteAbstract_input_frame:
  assumes "RemoteAbstract_input s dat w = (e, s', w')"
  shows "sensed w' = sensed w \<and> level w' = level w \<and> clock w' = clock w \<and> reads w' = reads w \<and>
         album w' = album w \<and> outbox w' = outbox w \<and> format_c w' = format_c w \<and>
         platform w' = platform w"
  using assms
  by (auto simp: RemoteAbstract_input_def RemoteAbstract_change_pin_def RemoteAbstract_close_def
      gpio_open_def gpio_close_def Let_def split: option.splits gpio_failure.splits if_splits)

lemma SimpleOutput_input_frame:
  assumes "SimpleOutput_input s dat w = (e, s', w')" and "d_keep_on dat = None"
  shows "sensed w' = sensed w \<and> level w' = level w \<and> clock w' = clock w \<and> reads w' = reads w \<and>
         album w' = album w \<and> outbox w' = outbox w \<and> format_c w' = format_c w \<and>
         platform w' = platform w"
proof -
  obtain e1 s1 w1 where r: "RemoteAbstract_input s dat w = (e1, s1, w1)"
    using prod_cases3 by blast
  with assms have "w' = w1"
    by (cases e1) (auto simp: SimpleOutput_input_def)
  with RemoteAbstract_input_frame [OF r] show ?thesis by simp
qed

lemma take_photo_eq:
  "take_photo a w =
     (a\<lparr>last_picture_taken := Some (clock w (reads w))\<rparr>,
      w\<lparr>album := length (album w) # album w, reads := Suc (reads w)\<rparr>)"
  by (simp add: take_photo_def camera_take_photo_def time_time_def Let_def)

lemma send_email_eq:
  "send_email a w =
     (a\<lparr>last_email_sent := Some (clock w (reads w))\<rparr>,
      w\<lparr>outbox := outbox w @ [split CHR '','' (filter (\<lambda>c. c \<noteq> CHR '' '') (emails a))],
        reads := Suc (reads w)\<rparr>)"
  by (simp add: send_email_def emailer_send_email_def time_time_def Let_def)

lemma passive_mode_eq:
  "passive_mode a w =
     (a\<lparr>last_email_sent := None\<rparr>, w\<lparr>level := (level w)(dev_pin (device (buzzer a)) := False)\<rparr>)"
  by (cases "last_email_sent a")
     (simp_all add: passive_mode_def SimpleOutput_off_def gpio_set_level_def Let_def)

lemma alert_mode_frame:
  assumes "alert_mode a w = (a', w')"
  shows "keep_on a' = keep_on a \<and> door_open a' = door_open a \<and> photo_toggle a' = photo_toggle a \<and>
         switch a' = switch a \<and> buzzer a' = buzzer a \<and> motion a' = motion a \<and>
         motion_detected a' = motion_detected a \<and> emails a' = emails a \<and>
         alarm_pin a' = alarm_pin a \<and>
         level w' = (level w)(dev_pin (device (buzzer a)) := True) \<and>
         sensed w' = sensed w \<and> open_devices w' = open_devices w \<and> clock w' = clock w"
  using assms
  by (auto simp: alert_mode_def take_photo_eq send_email_eq SimpleOutput_on_def gpio_set_level_def
      time_time_def Let_def split: option.splits if_splits prod.splits)

text \<open>A call of \<open>input\<close> that returns has re-bound the three sub-devices, read the
  switch and the motion sensor, handled the photo toggle, and then run one of the two
  modes.\<close>

lemma AlarmSystem_input_returns:
  assumes "AlarmSystem_input a dat w = (None, a', w')"
  shows "\<exists>sw bz mo w1 w2 w3.
     RemoteAbstract_input (switch a) \<lparr>d_pin = dic_pin dat, d_keep_on = None\<rparr> w = (None, sw, w1) \<and>
     SimpleOutput_input (buzzer a) \<lparr>d_pin = dic_pin_buzzer dat, d_keep_on = None\<rparr> w1 = (None, bz, w2) \<and>
     RemoteAbstract_input (motion a) \<lparr>d_pin = dic_pin_motion dat, d_keep_on = None\<rparr> w2 = (None, mo, w3) \<and>
     (let a5 = a\<lparr>switch := sw, buzzer := bz, motion := mo, emails := dic_emails dat,
                 keep_on := dic_keep_on dat,
                 door_open := \<not> sensed w (dev_pin (device sw)),
                 motion_detected := sensed w (dev_pin (device mo))\<rparr>;
          a6 = (if dic_photo_toggle dat \<noteq> photo_toggle a
                then a5\<lparr>last_picture_taken := Some (clock w (reads w)),
                        photo_toggle := dic_photo_toggle dat\<rparr>
                else a5);
          w4 = (if dic_photo_toggle dat \<noteq> photo_toggle a
                then w3\<lparr>album := length (album w) # album w, reads := Suc (reads w)\<rparr>
                else w3)
      in (a', w') = (if dic_keep_on dat \<and> \<not> sensed w (dev_pin (device sw))
                     then alert_mode a6 w4 else passive_mode a6 w4))"
proof -
  obtain e1 sw w1 where r1:
    "RemoteAbstract_input (switch a) \<lparr>d_pin = dic_pin dat, d_keep_on = None\<rparr> w = (e1, sw, w1)"
    using prod_cases3 by blast
  obtain e2 bz w2 where r2:
    "SimpleOutput_input (buzzer a) \<lparr>d_pin = dic_pin_buzzer dat, d_keep_on = None\<rparr> w1 = (e2, bz, w2)"
    using prod_cases3 by blast
  obtain e3 mo w3 where r3:
    "RemoteAbstract_input (motion a) \<lparr>d_pin = dic_pin_motion dat, d_keep_on = None\<rparr> w2 = (e3, mo, w3)"
    using prod_cases3 by blast
  from assms r1 have e1: "e1 = None"
    by (cases e1) (auto simp: AlarmSystem_input_def)
  from assms r1 r2 e1 have e2: "e2 = None"
    by (cases e2) (auto simp: AlarmSystem_input_def)
  from assms r1 r2 r3 e1 e2 have e3: "e3 = None"
    by (cases e3) (auto simp: AlarmSystem_input_def)
  note f1 = RemoteAbstract_input_frame [OF r1]
  note f2 = SimpleOutput_input_frame [OF r2, simplified]
  note f3 = RemoteAbstract_input_frame [OF r3]
  have s: "sensed w3 = sensed w" "album w3 = album w" "reads w3 = reads w" "clock w3 = clock w"
    using f1 f2 f3 by simp_all
  from assms show ?thesis
    by (auto simp add: AlarmSystem_input_def r1 r2 r3 e1 e2 e3 Let_def take_photo_eq
        SimpleInput_is_active_def gpio_is_active_def s split: prod.splits if_splits)
qed

lemma RemoteAbstract_change_pin_data:
  "data (fst (snd (RemoteAbstract_change_pin (s::SimpleInput) p w))) = data s"
  by (simp add: RemoteAbstract_change_pin_def Let_def
      split: prod.splits sum.splits gpio_failure.splits)

lemma RemoteAbstract_input_data:
  "data (fst (snd (RemoteAbstract_input (s::SimpleInput) dat w))) = data s"
  using RemoteAbstract_change_pin_data [of "s\<lparr>pin := d_pin dat\<rparr>"]
  by (simp add: RemoteAbstract_input_def Let_def)

text \<open>Whatever its outcome, \<open>AlarmSystem.input\<close> leaves in the alarm the switch its first
  sub-call returned, and a motion sensor that is the old one or one its third sub-call
  returned.\<close>

lemma AlarmSystem_input_inputs:
  "\<exists>sw mo. switch (fst (snd (AlarmSystem_input a dat w))) = sw \<and>
     sw = fst (snd (RemoteAbstract_input (switch a) \<lparr>d_pin = dic_pin dat, d_keep_on = None\<rparr> w)) \<and>
     motion (fst (snd (AlarmSystem_input a dat w))) = mo \<and>
     (mo = motion a \<or>
      (\<exists>w2. mo = fst (snd (RemoteAbstract_input (motion a)
                             \<lparr>d_pin = dic_pin_motion dat, d_keep_on = None\<rparr> w2))))"
proof -
  obtain e1 sw w1 where r1:
    "RemoteAbstract_input (switch a) \<lparr>d_pin = dic_pin dat, d_keep_on = None\<rparr> w = (e1, sw, w1)"
    using prod_cases3 by blast
  obtain e2 bz w2 where r2:
    "SimpleOutput_input (buzzer a) \<lparr>d_pin = dic_pin_buzzer dat, d_keep_on = None\<rparr> w1 = (e2, bz, w2)"
    using prod_cases3 by blast
  obtain e3 mo w3 where r3:
    "RemoteAbstract_input (motion a) \<lparr>d_pin = dic_pin_motion dat, d_keep_on = None\<rparr> w2 = (e3, mo, w3)"
    using prod_cases3 by blast
  show ?thesis
  proof (cases e1)
    case (Some x)
    then show ?thesis by (simp add: AlarmSystem_input_def r1)
  next
    case e1: None
    show ?thesis
    proof (cases e2)
      case (Some x)
      then show ?thesis by (simp add: AlarmSystem_input_def r1 r2 e1)
    next
      case e2: None
      show ?thesis
      proof (cases e3)
        case (Some x)
        then have "motion (fst (snd (AlarmSystem_input a dat w))) = mo"
          by (simp add: AlarmSystem_input_def r1 r2 r3 e1 e2)
        moreover from Some have "switch (fst (snd (AlarmSystem_input a dat w))) = sw"
          by (simp add: AlarmSystem_input_def r1 r2 r3 e1 e2)
        ultimately show ?thesis using r1 r3 by (metis fst_conv snd_conv)
      next
        case e3: None
        obtain a' w' where r: "AlarmSystem_input a dat w = (None, a', w')"
          by (cases "AlarmSystem_input a dat w")
             (auto simp: AlarmSystem_input_def r1 r2 r3 e1 e2 e3 Let_def split: prod.splits)
        from AlarmSystem_input_returns [OF r] r1 r2 r3 e1 e2 e3
        have "switch a' = sw \<and> motion a' = mo"
          by (auto simp: Let_def passive_mode_eq split: if_splits dest!: alert_mode_frame [OF sym])
        then show ?thesis using r r1 r3 by (metis fst_conv snd_conv)
      qed
    qed
  qed
qed

text \<open>What \<open>alert_mode\<close> does to the album: at most one photo, and none while the clock
  stays within three seconds of the last capture.\<close>

lemma alert_mode_photo:
  assumes "alert_mode a w = (a', w')"
  shows "album w' = album w \<or> album w' = length (album w) # album w"
  using assms
  by (auto simp: alert_mode_def take_photo_eq send_email_eq SimpleOutput_on_def gpio_set_level_def
      time_time_def Let_def split: option.splits if_splits prod.splits)

lemma alert_mode_no_photo:
  assumes "alert_mode a w = (a', w')" and "last_picture_taken a = Some t"
      and "\<And>i. clock w i \<le> t + 3"
  shows "album w' = album w"
  using assms(1,2) assms(3) [of "reads w"] assms(3) [of "Suc (reads w)"]
    assms(3) [of "Suc (Suc (reads w))"]
  by (auto simp: alert_mode_def take_photo_eq send_email_eq SimpleOutput_on_def gpio_set_level_def
      time_time_def PHOTO_MAX_TIME_def Let_def split: option.splits if_splits prod.splits)

text \<open>The state in which a returning \<open>input\<close> enters its mode.\<close>

lemma AlarmSystem_input_mode:
  assumes "AlarmSystem_input a dat w = (None, a', w')"
  shows "\<exists>a1 w1.
     keep_on a1 = dic_keep_on dat \<and>
     door_open a1 = (\<not> sensed w (dev_pin (device (switch a1)))) \<and>
     motion_detected a1 = sensed w (dev_pin (device (motion a1))) \<and>
     photo_toggle a1 = dic_photo_toggle dat \<and>
     last_email_sent a1 = last_email_sent a \<and>
     last_picture_taken a1 =
       (if dic_photo_toggle dat \<noteq> photo_toggle a then Some (clock w (reads w))
        else last_picture_taken a) \<and>
     album w1 =
       (if dic_photo_toggle dat \<noteq> photo_toggle a then length (album w) # album w else album w) \<and>
     reads w1 = (if dic_photo_toggle dat \<noteq> photo_toggle a then Suc (reads w) else reads w) \<and>
     clock w1 = clock w \<and> sensed w1 = sensed w \<and> level w1 = level w \<and> outbox w1 = outbox w \<and>
     (a', w') = (if keep_on a1 \<and> door_open a1 then alert_mode a1 w1 else passive_mode a1 w1)"
proof -
  from AlarmSystem_input_returns [OF assms] obtain sw bz mo w1 w2 w3 where
    r1: "RemoteAbstract_input (switch a) \<lparr>d_pin = dic_pin dat, d_keep_on = None\<rparr> w = (None, sw, w1)" and
    r2: "SimpleOutput_input (buzzer a) \<lparr>d_pin = dic_pin_buzzer dat, d_keep_on = None\<rparr> w1 = (None, bz, w2)" and
    r3: "RemoteAbstract_input (motion a) \<lparr>d_pin = dic_pin_motion dat, d_keep_on = None\<rparr> w2 = (None, mo, w3)" and
    m: "(let a5 = a\<lparr>switch := sw, buzzer := bz, motion := mo, emails := dic_emails dat,
                 keep_on := dic_keep_on dat,
                 door_open := \<not> sensed w (dev_pin (device sw)),
                 motion_detected := sensed w (dev_pin (device mo))\<rparr>;
          a6 = (if dic_photo_toggle dat \<noteq> photo_toggle a
                then a5\<lparr>last_picture_taken := Some (clock w (reads w)),
                        photo_toggle := dic_photo_toggle dat\<rparr>
                else a5);
          w4 = (if dic_photo_toggle dat \<noteq> photo_toggle a
                then w3\<lparr>album := length (album w) # album w, reads := Suc (reads w)\<rparr>
                else w3)
      in (a', w') = (if dic_keep_on dat \<and> \<not> sensed w (dev_pin (device sw))
                     then alert_mode a6 w4 else passive_mode a6 w4))"
    by blast
  note f1 = RemoteAbstract_input_frame [OF r1]
  note f2 = SimpleOutput_input_frame [OF r2, simplified]
  note f3 = RemoteAbstract_input_frame [OF r3]
  have s: "sensed w3 = sensed w" "album w3 = album w" "reads w3 = reads w" "clock w3 = clock w"
    "level w3 = level w" "outbox w3 = outbox w"
    using f1 f2 f3 by simp_all
  define a5 where "a5 = a\<lparr>switch := sw, buzzer := bz, motion := mo, emails := dic_emails dat,
                 keep_on := dic_keep_on dat,
                 door_open := \<not> sensed w (dev_pin (device sw)),
                 motion_detected := sensed w (dev_pin (device mo))\<rparr>"
  define a6 where "a6 = (if dic_photo_toggle dat \<noteq> photo_toggle a
                then a5\<lparr>last_picture_taken := Some (clock w (reads w)),
                        photo_toggle := dic_photo_toggle dat\<rparr>
                else a5)"
  define w4 where "w4 = (if dic_photo_toggle dat \<noteq> photo_toggle a
                then w3\<lparr>album := length (album w) # album w, reads := Suc (reads w)\<rparr>
                else w3)"
  have k: "keep_on a6 = dic_keep_on dat" "door_open a6 = (\<not> sensed w (dev_pin (device sw)))"
    by (auto simp add: a5_def a6_def)
  from m have "(a', w') = (if dic_keep_on dat \<and> \<not> sensed w (dev_pin (device sw))
                           then alert_mode a6 w4 else passive_mode a6 w4)"
    unfolding Let_def a5_def [symmetric] a6_def [symmetric] w4_def [symmetric] .
  then have m': "(a', w') = (if keep_on a6 \<and> door_open a6 then alert_mode a6 w4
                                else passive_mode a6 w4)"
    by (simp only: k)
  have p: "keep_on a6 = dic_keep_on dat"
    "door_open a6 = (\<not> sensed w (dev_pin (device (switch a6))))"
    "motion_detected a6 = sensed w (dev_pin (device (motion a6)))"
    "photo_toggle a6 = dic_photo_toggle dat"
    "last_email_sent a6 = last_email_sent a"
    "last_picture_taken a6 =
       (if dic_photo_toggle dat \<noteq> photo_toggle a then Some (clock w (reads w))
        else last_picture_taken a)"
    by (auto simp add: a5_def a6_def)
  have q: "album w4 =
       (if dic_photo_toggle dat \<noteq> photo_toggle a then length (album w) # album w else album w)"
    "reads w4 = (if dic_photo_toggle dat \<noteq> photo_toggle a then Suc (reads w) else reads w)"
    "clock w4 = clock w" "sensed w4 = sensed w" "level w4 = level w" "outbox w4 = outbox w"
    by (auto simp add: w4_def s)
  from p q m' show ?thesis by blast
qed

lemmas eval_defs =
  init_defs gpio_defs input_defs mode_defs exclusive_platform_def
  world0_def dic0_def alarm1_def world1_def Let_def

section \<open>The claims\<close>

subsection \<open>The state machine of the alarm\<close>

text \<open>
  C1. Take a call of \<open>AlarmSystem.input\<close> that returns: no re-binding of a sub-device is
  refused, and the switch, the buzzer and the motion sensor are bound. (The GPIO library
  raises when a released device is read or driven, which the definitions do not follow;
  the open devices do not change once the re-binding is done, so the devices bound at
  the end are those bound when the call reads and drives them.) Then \<open>keep_on\<close> is the
  flag of the data, \<open>door_open\<close> is the negation of what the re-bound switch reads on that
  call, and the call has run \<open>alert_mode\<close> if both hold and \<open>passive_mode\<close> otherwise: the
  buzzer is driven exactly when both hold, and in the other case \<open>last_email_sent\<close> is
  unset and no mail was sent.
\<close>

theorem AlarmSystem_input_transition:
  assumes "AlarmSystem_input a dat w = (None, a', w')"
      and "device (switch a') \<in> set (open_devices w')"
      and "device (buzzer a') \<in> set (open_devices w')"
      and "device (motion a') \<in> set (open_devices w')"
  shows "keep_on a' = dic_keep_on dat \<and>
         door_open a' = (\<not> SimpleInput_is_active (switch a') w') \<and>
         sensed w' = sensed w \<and>
         (\<exists>a1 w1. keep_on a1 = keep_on a' \<and> door_open a1 = door_open a' \<and>
            switch a1 = switch a' \<and> buzzer a1 = buzzer a' \<and> motion a1 = motion a' \<and>
            open_devices w1 = open_devices w' \<and>
            (a', w') = (if keep_on a' \<and> door_open a' then alert_mode a1 w1
                        else passive_mode a1 w1)) \<and>
         level w' (dev_pin (device (buzzer a'))) = (keep_on a' \<and> door_open a') \<and>
         (\<not> (keep_on a' \<and> door_open a') \<longrightarrow>
            last_email_sent a' = None \<and> outbox w' = outbox w)"
proof -
  from AlarmSystem_input_mode [OF assms(1)] obtain a1 w1 where
    k: "keep_on a1 = dic_keep_on dat" and
    d: "door_open a1 = (\<not> sensed w (dev_pin (device (switch a1))))" and
    o: "outbox w1 = outbox w" and
    s: "sensed w1 = sensed w" and
    m: "(a', w') = (if keep_on a1 \<and> door_open a1 then alert_mode a1 w1 else passive_mode a1 w1)"
    by blast
  show ?thesis
  proof (cases "keep_on a1 \<and> door_open a1")
    case True
    with m have r: "alert_mode a1 w1 = (a', w')" by simp
    note f = alert_mode_frame [OF r]
    from f k d s True have "keep_on a' = dic_keep_on dat"
      "door_open a' = (\<not> SimpleInput_is_active (switch a') w')"
      "sensed w' = sensed w"
      "level w' (dev_pin (device (buzzer a'))) = (keep_on a' \<and> door_open a')"
      "keep_on a' \<and> door_open a'"
      by (simp_all add: SimpleInput_is_active_def gpio_is_active_def)
    moreover from f r True have "\<exists>a1 w1. keep_on a1 = keep_on a' \<and> door_open a1 = door_open a' \<and>
            switch a1 = switch a' \<and> buzzer a1 = buzzer a' \<and> motion a1 = motion a' \<and>
            open_devices w1 = open_devices w' \<and>
            (a', w') = (if keep_on a' \<and> door_open a' then alert_mode a1 w1
                        else passive_mode a1 w1)"
      by (intro exI [of _ a1] exI [of _ w1]) auto
    ultimately show ?thesis by simp
  next
    case False
    with m have r: "(a', w') = passive_mode a1 w1" by simp
    then have e: "a' = a1\<lparr>last_email_sent := None\<rparr>"
      "w' = w1\<lparr>level := (level w1)(dev_pin (device (buzzer a1)) := False)\<rparr>"
      by (simp_all add: passive_mode_eq)
    from e k d s False o have "keep_on a' = dic_keep_on dat"
      "door_open a' = (\<not> SimpleInput_is_active (switch a') w')"
      "sensed w' = sensed w"
      "level w' (dev_pin (device (buzzer a'))) = (keep_on a' \<and> door_open a')"
      "\<not> (keep_on a' \<and> door_open a')" "last_email_sent a' = None" "outbox w' = outbox w"
      by (simp_all add: SimpleInput_is_active_def gpio_is_active_def)
    moreover from e r False have "\<exists>a1 w1. keep_on a1 = keep_on a' \<and> door_open a1 = door_open a' \<and>
            switch a1 = switch a' \<and> buzzer a1 = buzzer a' \<and> motion a1 = motion a' \<and>
            open_devices w1 = open_devices w' \<and>
            (a', w') = (if keep_on a' \<and> door_open a' then alert_mode a1 w1
                        else passive_mode a1 w1)"
      by (intro exI [of _ a1] exI [of _ w1]) auto
    ultimately show ?thesis by simp
  qed
qed

text \<open>The armed alarm \<open>alarm1\<close>, its door open and its three devices bound: disarmed by the
  data, it goes passive (buzzer off, \<open>last_email_sent\<close> unset); fed the same data again, it
  stays in alert.\<close>

theorem AlarmSystem_input_transition_witness:
  "fst (AlarmSystem_input alarm1 (dic0\<lparr>dic_keep_on := False\<rparr>) world1) = None \<and>
   level (snd (snd (AlarmSystem_input alarm1 (dic0\<lparr>dic_keep_on := False\<rparr>) world1))) 5 = False \<and>
   last_email_sent (fst (snd (AlarmSystem_input alarm1 (dic0\<lparr>dic_keep_on := False\<rparr>) world1))) = None \<and>
   fst (AlarmSystem_input alarm1 dic0 world1) = None \<and>
   level (snd (snd (AlarmSystem_input alarm1 dic0 world1))) 5 = True"
proof -
  obtain e1 a1 w1 where r1:
    "AlarmSystem_input alarm1 (dic0\<lparr>dic_keep_on := False\<rparr>) world1 = (e1, a1, w1)"
    using prod_cases3 by blast
  obtain e2 a2 w2 where r2: "AlarmSystem_input alarm1 dic0 world1 = (e2, a2, w2)"
    using prod_cases3 by blast
  have e1: "e1 = None" and b1: "buzzer a1 = buzzer alarm1" and s1: "switch a1 = switch alarm1"
    and m1: "motion a1 = motion alarm1" and o1: "open_devices w1 = open_devices world1"
    using r1 by (auto simp add: eval_defs)
  have e2: "e2 = None" and b2: "buzzer a2 = buzzer alarm1" and s2: "switch a2 = switch alarm1"
    and m2: "motion a2 = motion alarm1" and o2: "open_devices w2 = open_devices world1"
    using r2 by (auto simp add: eval_defs)
  have bound1: "device (switch a1) \<in> set (open_devices w1)"
    "device (buzzer a1) \<in> set (open_devices w1)" "device (motion a1) \<in> set (open_devices w1)"
    by (simp_all add: b1 s1 m1 o1 alarm1_def world1_def)
  have bound2: "device (switch a2) \<in> set (open_devices w2)"
    "device (buzzer a2) \<in> set (open_devices w2)" "device (motion a2) \<in> set (open_devices w2)"
    by (simp_all add: b2 s2 m2 o2 alarm1_def world1_def)
  have "level w1 5 = False \<and> last_email_sent a1 = None"
    using AlarmSystem_input_transition [OF r1 [unfolded e1] bound1] b1 s1
    by (simp add: alarm1_def world1_def dic0_def SimpleInput_is_active_def gpio_is_active_def)
  moreover have "level w2 5 = True"
    using AlarmSystem_input_transition [OF r2 [unfolded e2] bound2] b2 s2
    by (simp add: alarm1_def world1_def dic0_def SimpleInput_is_active_def gpio_is_active_def)
  ultimately show ?thesis by (simp add: r1 r2 e1 e2)
qed

text \<open>
  C1 as it is worded, for every call, fails on a call that raises. \<open>alarm1\<close>, its three
  devices bound, is in alert with its buzzer on pin 5 driven and \<open>last_email_sent\<close> set. The data disarm it and move
  the switch to pin 5, which the buzzer holds: the call raises \<open>ValueError\<close> while it
  re-binds the switch, \<open>passive_mode\<close> does not run, the buzzer stays driven and
  \<open>last_email_sent\<close> stays set.
\<close>

theorem AlarmSystem_input_transition_counterexample:
  "fst (AlarmSystem_input alarm1 (dic0\<lparr>dic_pin := 5, dic_keep_on := False\<rparr>) world1) =
     Some (ValueError ''pin in use'') \<and>
   dev_pin (device (buzzer (fst (snd
     (AlarmSystem_input alarm1 (dic0\<lparr>dic_pin := 5, dic_keep_on := False\<rparr>) world1))))) = 5 \<and>
   level (snd (snd
     (AlarmSystem_input alarm1 (dic0\<lparr>dic_pin := 5, dic_keep_on := False\<rparr>) world1))) 5 = True \<and>
   last_email_sent (fst (snd
     (AlarmSystem_input alarm1 (dic0\<lparr>dic_pin := 5, dic_keep_on := False\<rparr>) world1))) = Some 1000"
  by (simp add: eval_defs)

subsection \<open>The two rate limiters of alert mode\<close>

text \<open>
  C2. In \<open>alert_mode\<close> a mail goes to the recipients (the address string without its
  blanks, split at the commas) and \<open>last_email_sent\<close> becomes the clock's reading after the
  mail is sent, exactly when \<open>last_email_sent\<close> is unset or the clock's reading at the check
  exceeds it by more than 3600; otherwise no mail goes out and the timestamp stays. In
  particular, with \<open>last_email_sent = T\<close>, a call at \<open>T + 3601\<close> sends and a call at
  \<open>T + 3599\<close> does not.
\<close>

theorem alert_mode_email_limiter:
  assumes "alert_mode a w = (a', w')"
  shows "(case last_email_sent a of
            None \<Rightarrow>
              outbox w' = outbox w @ [split CHR '','' (filter (\<lambda>c. c \<noteq> CHR '' '') (emails a))] \<and>
              last_email_sent a' = Some (clock w (reads w))
          | Some t \<Rightarrow>
              if clock w (reads w) - t > 3600
              then outbox w' = outbox w @ [split CHR '','' (filter (\<lambda>c. c \<noteq> CHR '' '') (emails a))] \<and>
                   last_email_sent a' = Some (clock w (Suc (reads w)))
              else outbox w' = outbox w \<and> last_email_sent a' = Some t) \<and>
         (\<forall>T. last_email_sent a = Some T \<and> clock w (reads w) = T + 3601 \<longrightarrow>
              outbox w' = outbox w @ [split CHR '','' (filter (\<lambda>c. c \<noteq> CHR '' '') (emails a))] \<and>
              last_email_sent a' = Some (clock w (Suc (reads w)))) \<and>
         (\<forall>T. last_email_sent a = Some T \<and> clock w (reads w) = T + 3599 \<longrightarrow>
              outbox w' = outbox w \<and> last_email_sent a' = Some T)"
  using assms
  by (auto simp: alert_mode_def take_photo_eq send_email_eq SimpleOutput_on_def gpio_set_level_def
      time_time_def EMAIL_MAX_TIME_def Let_def split: option.splits if_splits prod.splits)

text \<open>\<open>alarm1\<close> sent its last mail at 1000: alert mode at 4601 and at 4599, and alert mode
  with the timestamp unset.\<close>

theorem alert_mode_email_limiter_witness:
  "outbox (snd (alert_mode alarm1 (world1\<lparr>clock := (\<lambda>_. 4601)\<rparr>))) =
     [[''a@b.c'', ''d@e.f''], [''a@b.c'', ''d@e.f'']] \<and>
   last_email_sent (fst (alert_mode alarm1 (world1\<lparr>clock := (\<lambda>_. 4601)\<rparr>))) = Some 4601 \<and>
   outbox (snd (alert_mode alarm1 (world1\<lparr>clock := (\<lambda>_. 4599)\<rparr>))) = [[''a@b.c'', ''d@e.f'']] \<and>
   last_email_sent (fst (alert_mode alarm1 (world1\<lparr>clock := (\<lambda>_. 4599)\<rparr>))) = Some 1000 \<and>
   outbox (snd (alert_mode (alarm1\<lparr>last_email_sent := None\<rparr>) world1)) =
     [[''a@b.c'', ''d@e.f''], [''a@b.c'', ''d@e.f'']] \<and>
   last_email_sent (fst (alert_mode (alarm1\<lparr>last_email_sent := None\<rparr>) world1)) = Some 1002"
proof -
  obtain a1 w1 where r1: "alert_mode alarm1 (world1\<lparr>clock := (\<lambda>_. 4601)\<rparr>) = (a1, w1)"
    by fastforce
  obtain a2 w2 where r2: "alert_mode alarm1 (world1\<lparr>clock := (\<lambda>_. 4599)\<rparr>) = (a2, w2)"
    by fastforce
  obtain a3 w3 where r3: "alert_mode (alarm1\<lparr>last_email_sent := None\<rparr>) world1 = (a3, w3)"
    by fastforce
  have "outbox w1 = [[''a@b.c'', ''d@e.f''], [''a@b.c'', ''d@e.f'']] \<and> last_email_sent a1 = Some 4601"
    using alert_mode_email_limiter [OF r1] by (simp add: alarm1_def world1_def)
  moreover have "outbox w2 = [[''a@b.c'', ''d@e.f'']] \<and> last_email_sent a2 = Some 1000"
    using alert_mode_email_limiter [OF r2] by (simp add: alarm1_def world1_def)
  moreover have "outbox w3 = [[''a@b.c'', ''d@e.f''], [''a@b.c'', ''d@e.f'']] \<and>
      last_email_sent a3 = Some 1002"
    using alert_mode_email_limiter [OF r3] by (simp add: alarm1_def world1_def)
  ultimately show ?thesis by (simp add: r1 r2 r3)
qed

text \<open>
  C3. In \<open>alert_mode\<close> a photo is captured and \<open>last_picture_taken\<close> becomes the clock's
  reading after the capture, exactly when \<open>last_picture_taken\<close> is unset or the clock's
  reading at the check exceeds it by more than 3; otherwise nothing is captured and the
  timestamp stays. The check is the reading number \<open>k\<close> of the clock, after those the mail
  limiter made. In particular, with \<open>last_picture_taken = T\<close>, a call at \<open>T + 4\<close> captures
  and a call at \<open>T + 2\<close> does not. \<open>passive_mode\<close> leaves \<open>last_picture_taken\<close> and the album
  as they are.
\<close>

theorem alert_mode_photo_limiter:
  assumes "alert_mode a w = (a', w')"
      and "k = reads w + (case last_email_sent a of None \<Rightarrow> 1
                          | Some t \<Rightarrow> if clock w (reads w) - t > 3600 then 2 else 1)"
  shows "(case last_picture_taken a of
            None \<Rightarrow>
              album w' = length (album w) # album w \<and> last_picture_taken a' = Some (clock w k)
          | Some t \<Rightarrow>
              if clock w k - t > 3
              then album w' = length (album w) # album w \<and>
                   last_picture_taken a' = Some (clock w (Suc k))
              else album w' = album w \<and> last_picture_taken a' = Some t) \<and>
         (\<forall>T. last_picture_taken a = Some T \<and> clock w k = T + 4 \<longrightarrow>
              album w' = length (album w) # album w \<and>
              last_picture_taken a' = Some (clock w (Suc k))) \<and>
         (\<forall>T. last_picture_taken a = Some T \<and> clock w k = T + 2 \<longrightarrow>
              album w' = album w \<and> last_picture_taken a' = Some T) \<and>
         (\<forall>b v. last_picture_taken (fst (passive_mode b v)) = last_picture_taken b \<and>
              album (snd (passive_mode b v)) = album v)"
  using assms
  by (auto simp: alert_mode_def take_photo_eq send_email_eq SimpleOutput_on_def gpio_set_level_def
      time_time_def EMAIL_MAX_TIME_def PHOTO_MAX_TIME_def passive_mode_eq Let_def
      split: option.splits if_splits prod.splits)

text \<open>\<open>alarm1\<close> took its last photo at 1001: alert mode at 1005 and at 1003, and passive
  mode.\<close>

theorem alert_mode_photo_limiter_witness:
  "album (snd (alert_mode alarm1 (world1\<lparr>clock := (\<lambda>_. 1005)\<rparr>))) = [1, 0] \<and>
   last_picture_taken (fst (alert_mode alarm1 (world1\<lparr>clock := (\<lambda>_. 1005)\<rparr>))) = Some 1005 \<and>
   album (snd (alert_mode alarm1 (world1\<lparr>clock := (\<lambda>_. 1003)\<rparr>))) = [0] \<and>
   last_picture_taken (fst (alert_mode alarm1 (world1\<lparr>clock := (\<lambda>_. 1003)\<rparr>))) = Some 1001 \<and>
   last_picture_taken (fst (passive_mode alarm1 world1)) = Some 1001"
proof -
  obtain a1 w1 where r1: "alert_mode alarm1 (world1\<lparr>clock := (\<lambda>_. 1005)\<rparr>) = (a1, w1)"
    by fastforce
  obtain a2 w2 where r2: "alert_mode alarm1 (world1\<lparr>clock := (\<lambda>_. 1003)\<rparr>) = (a2, w2)"
    by fastforce
  have "album w1 = [1, 0] \<and> last_picture_taken a1 = Some 1005"
    using alert_mode_photo_limiter [OF r1 refl] by (simp add: alarm1_def world1_def)
  moreover have "album w2 = [0] \<and> last_picture_taken a2 = Some 1001 \<and>
      last_picture_taken (fst (passive_mode alarm1 world1)) = Some 1001"
    using alert_mode_photo_limiter [OF r2 refl] by (simp add: alarm1_def world1_def)
  ultimately show ?thesis by (simp add: r1 r2)
qed

subsection \<open>The photo toggle\<close>

text \<open>
  C4. Take a call of \<open>AlarmSystem.input\<close> that returns: no re-binding of a sub-device is
  refused, and the switch, the buzzer and the motion sensor are bound (as for C1). It
  leaves \<open>photo_toggle\<close> equal to the flag of the data. If the flag differed from the
  stored one, the call has captured one photo and stamped \<open>last_picture_taken\<close> before it
  entered its mode, whichever mode that is; otherwise it entered its mode with the album
  as it found it. In passive mode that is the whole effect on the album; in alert mode the
  photo limiter may add its own photo, which it does not while the clock stays within
  three seconds of the toggle's capture. A later such call with the same flag enters its
  mode with the album as it finds it.
\<close>

theorem AlarmSystem_input_photo_toggle:
  assumes "AlarmSystem_input a dat w = (None, a', w')"
      and "device (switch a') \<in> set (open_devices w')"
      and "device (buzzer a') \<in> set (open_devices w')"
      and "device (motion a') \<in> set (open_devices w')"
  shows "photo_toggle a' = dic_photo_toggle dat \<and>
         (\<exists>a1 w1.
            album w1 = (if dic_photo_toggle dat \<noteq> photo_toggle a
                        then length (album w) # album w else album w) \<and>
            last_picture_taken a1 = (if dic_photo_toggle dat \<noteq> photo_toggle a
                                     then Some (clock w (reads w)) else last_picture_taken a) \<and>
            (a', w') = (if keep_on a1 \<and> door_open a1 then alert_mode a1 w1
                        else passive_mode a1 w1)) \<and>
         (\<not> (keep_on a' \<and> door_open a') \<longrightarrow>
            album w' = (if dic_photo_toggle dat \<noteq> photo_toggle a
                        then length (album w) # album w else album w)) \<and>
         (dic_photo_toggle dat \<noteq> photo_toggle a \<and> (\<forall>i. clock w i \<le> clock w (reads w) + 3) \<longrightarrow>
            album w' = length (album w) # album w) \<and>
         (\<forall>dat2 w2 a2 w2'.
            AlarmSystem_input a' dat2 w2 = (None, a2, w2') \<and>
            device (switch a2) \<in> set (open_devices w2') \<and>
            device (buzzer a2) \<in> set (open_devices w2') \<and>
            device (motion a2) \<in> set (open_devices w2') \<and>
            dic_photo_toggle dat2 = dic_photo_toggle dat \<longrightarrow>
            photo_toggle a2 = photo_toggle a' \<and>
            (\<exists>a1 w1. album w1 = album w2 \<and> last_picture_taken a1 = last_picture_taken a' \<and>
               (a2, w2') = (if keep_on a1 \<and> door_open a1 then alert_mode a1 w1
                            else passive_mode a1 w1)))"
proof -
  note ret = assms(1)
  have toggle: "photo_toggle b' = dic_photo_toggle d"
    if "AlarmSystem_input b d v = (None, b', v')" for b d v b' v'
  proof -
    from AlarmSystem_input_mode [OF that] obtain a1 w1 where
      t: "photo_toggle a1 = dic_photo_toggle d" and
      m: "(b', v') = (if keep_on a1 \<and> door_open a1 then alert_mode a1 w1 else passive_mode a1 w1)"
      by blast
    show ?thesis
    proof (cases "keep_on a1 \<and> door_open a1")
      case True
      with m have "alert_mode a1 w1 = (b', v')" by simp
      from alert_mode_frame [OF this] t show ?thesis by simp
    next
      case False
      with m t show ?thesis by (simp add: passive_mode_eq)
    qed
  qed
  from AlarmSystem_input_mode [OF ret] obtain a1 w1 where
    k: "keep_on a1 = dic_keep_on dat" and
    p: "last_picture_taken a1 =
       (if dic_photo_toggle dat \<noteq> photo_toggle a then Some (clock w (reads w))
        else last_picture_taken a)" and
    al: "album w1 =
       (if dic_photo_toggle dat \<noteq> photo_toggle a then length (album w) # album w else album w)" and
    c: "clock w1 = clock w" and
    m: "(a', w') = (if keep_on a1 \<and> door_open a1 then alert_mode a1 w1 else passive_mode a1 w1)"
    by blast
  have 1: "photo_toggle a' = dic_photo_toggle dat"
    by (rule toggle [OF ret])
  have 2: "\<exists>a1 w1.
            album w1 = (if dic_photo_toggle dat \<noteq> photo_toggle a
                        then length (album w) # album w else album w) \<and>
            last_picture_taken a1 = (if dic_photo_toggle dat \<noteq> photo_toggle a
                                     then Some (clock w (reads w)) else last_picture_taken a) \<and>
            (a', w') = (if keep_on a1 \<and> door_open a1 then alert_mode a1 w1
                        else passive_mode a1 w1)"
    using al p m by blast
  have 3: "album w' = (if dic_photo_toggle dat \<noteq> photo_toggle a
                        then length (album w) # album w else album w)"
    if "\<not> (keep_on a' \<and> door_open a')"
  proof (cases "keep_on a1 \<and> door_open a1")
    case True
    with m have "alert_mode a1 w1 = (a', w')" by simp
    from alert_mode_frame [OF this] True that show ?thesis by simp
  next
    case False
    with m al show ?thesis by (simp add: passive_mode_eq)
  qed
  have 4: "album w' = length (album w) # album w"
    if t: "dic_photo_toggle dat \<noteq> photo_toggle a" and q: "\<forall>i. clock w i \<le> clock w (reads w) + 3"
  proof (cases "keep_on a1 \<and> door_open a1")
    case True
    with m have r: "alert_mode a1 w1 = (a', w')" by simp
    from p t have "last_picture_taken a1 = Some (clock w (reads w))" by simp
    from alert_mode_no_photo [OF r this] q c have "album w' = album w1" by simp
    with al t show ?thesis by simp
  next
    case False
    with m al t show ?thesis by (simp add: passive_mode_eq)
  qed
  have 5: "photo_toggle a2 = photo_toggle a' \<and>
            (\<exists>a1 w1. album w1 = album w2 \<and> last_picture_taken a1 = last_picture_taken a' \<and>
               (a2, w2') = (if keep_on a1 \<and> door_open a1 then alert_mode a1 w1
                            else passive_mode a1 w1))"
    if r2: "AlarmSystem_input a' dat2 w2 = (None, a2, w2')"
      and same: "dic_photo_toggle dat2 = dic_photo_toggle dat" for dat2 w2 a2 w2'
  proof -
    from AlarmSystem_input_mode [OF r2] 1 same obtain b1 v1 where
      "album v1 = album w2" "last_picture_taken b1 = last_picture_taken a'"
      "(a2, w2') = (if keep_on b1 \<and> door_open b1 then alert_mode b1 v1 else passive_mode b1 v1)"
      by auto
    then have "\<exists>a1 w1. album w1 = album w2 \<and> last_picture_taken a1 = last_picture_taken a' \<and>
               (a2, w2') = (if keep_on a1 \<and> door_open a1 then alert_mode a1 w1
                            else passive_mode a1 w1)"
      by blast
    moreover from toggle [OF r2] same 1 have "photo_toggle a2 = photo_toggle a'" by simp
    ultimately show ?thesis by simp
  qed
  from 1 2 3 4 5 show ?thesis by blast
qed

text \<open>\<open>alarm1\<close>, its three devices bound, stores the flag \<open>False\<close>. Disarmed with the flag
  flipped, it captures photo 1 and stores the flag; disarmed with the flag as stored, it
  captures nothing; in alert with the flag flipped and a clock that stands still, it
  captures photo 1 alone.\<close>

theorem AlarmSystem_input_photo_toggle_witness:
  "album (snd (snd (AlarmSystem_input alarm1
      (dic0\<lparr>dic_keep_on := False, dic_photo_toggle := True\<rparr>) world1))) = [1, 0] \<and>
   photo_toggle (fst (snd (AlarmSystem_input alarm1
      (dic0\<lparr>dic_keep_on := False, dic_photo_toggle := True\<rparr>) world1))) = True \<and>
   album (snd (snd (AlarmSystem_input alarm1 (dic0\<lparr>dic_keep_on := False\<rparr>) world1))) = [0] \<and>
   album (snd (snd (AlarmSystem_input alarm1 (dic0\<lparr>dic_photo_toggle := True\<rparr>)
      (world1\<lparr>clock := (\<lambda>_. 1002)\<rparr>)))) = [1, 0]"
proof -
  obtain e1 a1 w1 where r1: "AlarmSystem_input alarm1
      (dic0\<lparr>dic_keep_on := False, dic_photo_toggle := True\<rparr>) world1 = (e1, a1, w1)"
    using prod_cases3 by blast
  obtain e2 a2 w2 where r2:
    "AlarmSystem_input alarm1 (dic0\<lparr>dic_keep_on := False\<rparr>) world1 = (e2, a2, w2)"
    using prod_cases3 by blast
  obtain e3 a3 w3 where r3: "AlarmSystem_input alarm1 (dic0\<lparr>dic_photo_toggle := True\<rparr>)
      (world1\<lparr>clock := (\<lambda>_. 1002)\<rparr>) = (e3, a3, w3)"
    using prod_cases3 by blast
  have e1: "e1 = None" and k1: "keep_on a1 = False"
    and d1: "switch a1 = switch alarm1" "buzzer a1 = buzzer alarm1" "motion a1 = motion alarm1"
      "open_devices w1 = open_devices world1"
    using r1 by (auto simp add: eval_defs)
  have e2: "e2 = None" and k2: "keep_on a2 = False"
    and d2: "switch a2 = switch alarm1" "buzzer a2 = buzzer alarm1" "motion a2 = motion alarm1"
      "open_devices w2 = open_devices world1"
    using r2 by (auto simp add: eval_defs)
  have e3: "e3 = None"
    and d3: "switch a3 = switch alarm1" "buzzer a3 = buzzer alarm1" "motion a3 = motion alarm1"
      "open_devices w3 = open_devices world1"
    using r3 by (auto simp add: eval_defs)
  have bound1: "device (switch a1) \<in> set (open_devices w1)"
    "device (buzzer a1) \<in> set (open_devices w1)" "device (motion a1) \<in> set (open_devices w1)"
    by (simp_all add: d1 alarm1_def world1_def)
  have bound2: "device (switch a2) \<in> set (open_devices w2)"
    "device (buzzer a2) \<in> set (open_devices w2)" "device (motion a2) \<in> set (open_devices w2)"
    by (simp_all add: d2 alarm1_def world1_def)
  have bound3: "device (switch a3) \<in> set (open_devices w3)"
    "device (buzzer a3) \<in> set (open_devices w3)" "device (motion a3) \<in> set (open_devices w3)"
    by (simp_all add: d3 alarm1_def world1_def)
  have "album w1 = [1, 0] \<and> photo_toggle a1 = True"
    using AlarmSystem_input_photo_toggle [OF r1 [unfolded e1] bound1] k1
    by (simp add: alarm1_def world1_def dic0_def)
  moreover have "album w2 = [0]"
    using AlarmSystem_input_photo_toggle [OF r2 [unfolded e2] bound2] k2
    by (simp add: alarm1_def world1_def dic0_def)
  moreover have "album w3 = [1, 0]"
    using AlarmSystem_input_photo_toggle [OF r3 [unfolded e3] bound3]
    by (simp add: alarm1_def world1_def dic0_def)
  ultimately show ?thesis by (simp add: r1 r2 r3)
qed

text \<open>
  C4 as it is worded, for every call, fails on a call that raises. The data flip the flag
  \<open>alarm1\<close> stores and move its switch to pin 5, which the buzzer holds: the call raises
  \<open>ValueError\<close> before the flag is looked at, no photo is captured and the stored flag is
  not updated.
\<close>

theorem AlarmSystem_input_photo_toggle_counterexample:
  "dic_photo_toggle (dic0\<lparr>dic_pin := 5, dic_photo_toggle := True\<rparr>) \<noteq> photo_toggle alarm1 \<and>
   fst (AlarmSystem_input alarm1 (dic0\<lparr>dic_pin := 5, dic_photo_toggle := True\<rparr>) world1) =
     Some (ValueError ''pin in use'') \<and>
   album (snd (snd
     (AlarmSystem_input alarm1 (dic0\<lparr>dic_pin := 5, dic_photo_toggle := True\<rparr>) world1))) =
     album world1 \<and>
   photo_toggle (fst (snd
     (AlarmSystem_input alarm1 (dic0\<lparr>dic_pin := 5, dic_photo_toggle := True\<rparr>) world1))) = False"
  by (simp add: eval_defs)

subsection \<open>Construction of the alarm\<close>

text \<open>
  C5. If, during construction of an \<open>AlarmSystem\<close>, the switch and the buzzer acquire their
  pins and the motion sensor fails to acquire its pin, the constructor raises the error of
  the motion sensor (a \<open>ValueError\<close> for an error of the GPIO library, the library's
  exception otherwise) and releases nothing: the devices of the switch and of the buzzer
  are still open, in front of those open before, when the error reaches the caller. What
  becomes of them after that is not the constructor's doing and is not stated here.
\<close>

theorem AlarmSystem_init_motion_failure:
  assumes "Switch_init True \<lparr>d_pin = dic_pin dic, d_keep_on = None\<rparr> w = (Inr sw, w1)"
      and "SimpleOutput_init \<lparr>d_pin = dic_pin_buzzer dic, d_keep_on = None\<rparr> w1 = (Inr bz, w2)"
      and "MotionSensor_init \<lparr>d_pin = dic_pin_motion dic, d_keep_on = None\<rparr> w2 = (Inl e, w3)"
  shows "AlarmSystem_init dic w = (Inl e, w3) \<and>
         open_devices w3 = device bz # device sw # open_devices w \<and>
         (\<exists>m. e = ValueError m \<or> e = Exception m)"
  using assms
  by (auto simp: AlarmSystem_init_def Switch_init_def SimpleOutput_init_def MotionSensor_init_def
      SimpleInput_init_def RemoteAbstract_init_def gpio_open_def Let_def
      split: option.splits gpio_failure.splits prod.splits sum.splits)

text \<open>In \<open>world0\<close>, with the motion sensor configured on pin 4, the pin of the switch.\<close>

theorem AlarmSystem_init_motion_failure_witness:
  "AlarmSystem_init (dic0\<lparr>dic_pin_motion := 4\<rparr>) world0 =
     (Inl (ValueError ''pin in use''),
      world0\<lparr>open_devices := [\<lparr>dev_id = 1, dev_class = OutputDevice, dev_pin = 5\<rparr>,
                               \<lparr>dev_id = 0, dev_class = Button, dev_pin = 4\<rparr>],
             opened := 2\<rparr>)"
proof -
  let ?sw = "\<lparr>pin = 4, Type = Button, device = \<lparr>dev_id = 0, dev_class = Button, dev_pin = 4\<rparr>,
          data = PNone\<rparr>"
  let ?bz = "\<lparr>pin = 5, Type = OutputDevice,
          device = \<lparr>dev_id = 1, dev_class = OutputDevice, dev_pin = 5\<rparr>\<rparr>"
  let ?w1 = "world0\<lparr>open_devices := [\<lparr>dev_id = 0, dev_class = Button, dev_pin = 4\<rparr>], opened := 1\<rparr>"
  let ?w2 = "world0\<lparr>open_devices := [\<lparr>dev_id = 1, dev_class = OutputDevice, dev_pin = 5\<rparr>,
                               \<lparr>dev_id = 0, dev_class = Button, dev_pin = 4\<rparr>],
             opened := 2\<rparr>"
  have 1: "Switch_init True \<lparr>d_pin = dic_pin (dic0\<lparr>dic_pin_motion := 4\<rparr>), d_keep_on = None\<rparr> world0
             = (Inr ?sw, ?w1)"
    by (simp add: eval_defs)
  have 2: "SimpleOutput_init \<lparr>d_pin = dic_pin_buzzer (dic0\<lparr>dic_pin_motion := 4\<rparr>), d_keep_on = None\<rparr> ?w1
             = (Inr ?bz, ?w2)"
    by (simp add: eval_defs)
  have 3: "MotionSensor_init \<lparr>d_pin = dic_pin_motion (dic0\<lparr>dic_pin_motion := 4\<rparr>), d_keep_on = None\<rparr> ?w2
             = (Inl (ValueError ''pin in use''), ?w2)"
    by (simp add: eval_defs)
  from AlarmSystem_init_motion_failure [OF 1 2 3] show ?thesis by simp
qed

text \<open>
  C5 as it is worded, with the switch and the buzzer released before the error propagates,
  fails: in \<open>world0\<close> nothing is open, the switch takes pin 4 and the buzzer pin 5, the
  motion sensor is refused pin 4, and when the constructor has raised the devices on pins 5
  and 4 are still open.
\<close>

theorem AlarmSystem_init_motion_failure_counterexample:
  "open_devices world0 = [] \<and>
   fst (Switch_init True \<lparr>d_pin = 4, d_keep_on = None\<rparr> world0) =
     Inr \<lparr>pin = 4, Type = Button, device = \<lparr>dev_id = 0, dev_class = Button, dev_pin = 4\<rparr>,
          data = PNone\<rparr> \<and>
   fst (AlarmSystem_init (dic0\<lparr>dic_pin_motion := 4\<rparr>) world0) = Inl (ValueError ''pin in use'') \<and>
   open_devices (snd (AlarmSystem_init (dic0\<lparr>dic_pin_motion := 4\<rparr>) world0)) =
     [\<lparr>dev_id = 1, dev_class = OutputDevice, dev_pin = 5\<rparr>,
      \<lparr>dev_id = 0, dev_class = Button, dev_pin = 4\<rparr>]"
  by (simp add: eval_defs)

subsection \<open>Re-binding a device\<close>

text \<open>
  C6. For every device, \<open>input\<close> with the pin the device already has changes nothing.
  With a different pin it records the new pin, releases the current device and only then
  asks for a device on the new pin: the request is made in the world in which the old
  device is closed. If the request is refused, the call raises a \<open>ValueError\<close> (for an
  error of the GPIO library) or the exception of the library as it is, the device object
  is still the old one, and it is not among the open devices: the device is left unbound.
  If the request is granted, the new device replaces the old one among the open devices.
\<close>

theorem RemoteAbstract_input_reconfigure:
  assumes "RemoteAbstract_input s dat w = (e, s', w')"
  shows "(d_pin dat = pin s \<longrightarrow> e = None \<and> s' = s \<and> w' = w) \<and>
         (d_pin dat \<noteq> pin s \<longrightarrow>
            pin s' = d_pin dat \<and>
            (case gpio_open (Type s) (d_pin dat) (gpio_close (device s) w) of
               (Inl f, w2) \<Rightarrow>
                  e = Some (case f of GPIOZeroError m \<Rightarrow> ValueError m
                                    | OtherException m \<Rightarrow> Exception m) \<and>
                  device s' = device s \<and> device s' \<notin> set (open_devices w') \<and>
                  w' = gpio_close (device s) w
             | (Inr d, w2) \<Rightarrow>
                  e = None \<and> device s' = d \<and> dev_pin d = d_pin dat \<and> w' = w2 \<and>
                  open_devices w' = d # removeAll (device s) (open_devices w)))"
  using assms
  by (auto simp: RemoteAbstract_input_def RemoteAbstract_change_pin_def RemoteAbstract_close_def
      gpio_open_def gpio_close_def Let_def split: option.splits gpio_failure.splits)

text \<open>The switch of \<open>alarm1\<close> (pin 4) is re-bound to its own pin, to pin 5, which the
  buzzer holds, and to the free pin 7.\<close>

theorem RemoteAbstract_input_reconfigure_witness:
  "RemoteAbstract_input (switch alarm1) \<lparr>d_pin = 4, d_keep_on = None\<rparr> world1 =
     (None, switch alarm1, world1) \<and>
   fst (RemoteAbstract_input (switch alarm1) \<lparr>d_pin = 5, d_keep_on = None\<rparr> world1) =
     Some (ValueError ''pin in use'') \<and>
   map dev_pin (open_devices
     (snd (snd (RemoteAbstract_input (switch alarm1) \<lparr>d_pin = 5, d_keep_on = None\<rparr> world1)))) =
     [6, 5] \<and>
   fst (RemoteAbstract_input (switch alarm1) \<lparr>d_pin = 7, d_keep_on = None\<rparr> world1) = None \<and>
   map dev_pin (open_devices
     (snd (snd (RemoteAbstract_input (switch alarm1) \<lparr>d_pin = 7, d_keep_on = None\<rparr> world1)))) =
     [7, 6, 5]"
proof -
  obtain e4 s4 w4 where r4:
    "RemoteAbstract_input (switch alarm1) \<lparr>d_pin = 4, d_keep_on = None\<rparr> world1 = (e4, s4, w4)"
    using prod_cases3 by blast
  obtain e5 s5 w5 where r5:
    "RemoteAbstract_input (switch alarm1) \<lparr>d_pin = 5, d_keep_on = None\<rparr> world1 = (e5, s5, w5)"
    using prod_cases3 by blast
  obtain e7 s7 w7 where r7:
    "RemoteAbstract_input (switch alarm1) \<lparr>d_pin = 7, d_keep_on = None\<rparr> world1 = (e7, s7, w7)"
    using prod_cases3 by blast
  have "e4 = None \<and> s4 = switch alarm1 \<and> w4 = world1"
    using RemoteAbstract_input_reconfigure [OF r4] by (simp add: alarm1_def)
  moreover have "e5 = Some (ValueError ''pin in use'') \<and> map dev_pin (open_devices w5) = [6, 5]"
    using RemoteAbstract_input_reconfigure [OF r5]
    by (simp add: alarm1_def world1_def gpio_open_def gpio_close_def exclusive_platform_def)
  moreover have "e7 = None \<and> map dev_pin (open_devices w7) = [7, 6, 5]"
    using RemoteAbstract_input_reconfigure [OF r7]
    by (simp add: alarm1_def world1_def gpio_open_def gpio_close_def exclusive_platform_def Let_def)
  ultimately show ?thesis
    by (simp add: r4 r5 r7)
qed

subsection \<open>What the alarm reports\<close>

text \<open>
  C7. Every call of \<open>AlarmSystem.output\<close> sends the store one update, for the alarm's pin,
  that reports \<open>door_open\<close> and, under \<open>photo\<close>, the newest photo at the end of the call.
  When \<open>motion_detected\<close> holds, the update also reports under \<open>motion\<close> the formatted time
  of the call, and the call captures one more photo, whatever \<open>last_picture_taken\<close> is: no
  cooldown gates this capture. The capture goes through \<open>take_photo\<close>, so it writes
  \<open>last_picture_taken\<close>, the timestamp the photo limiter of alert mode reads. When
  \<open>motion_detected\<close> does not hold, no \<open>motion\<close> is reported and nothing else changes.
\<close>

theorem AlarmSystem_output_report:
  assumes "AlarmSystem_output a db w = (a', db', w')"
  shows "\<exists>dic. db' = db @ [(alarm_pin a, dic)] \<and>
           dic ''door_open'' = Some (PBool (door_open a)) \<and>
           dic ''photo'' = Some (get_newest_photo w') \<and>
           (if motion_detected a
            then dic ''motion'' = Some (PStr (format_c w (clock w (reads w)))) \<and>
                 album w' = length (album w) # album w \<and>
                 get_newest_photo w' = PPhoto (length (album w)) \<and>
                 last_picture_taken a' = Some (clock w (Suc (reads w)))
            else dic ''motion'' = None \<and> a' = a \<and> w' = w)"
  using assms
  by (auto simp: AlarmSystem_output_def take_photo_eq time_strftime_def database_update_def
      get_newest_photo_def Let_def split: if_splits)

text \<open>\<open>alarm1\<close> reports with motion detected, and without.\<close>

theorem AlarmSystem_output_report_witness:
  "map fst (fst (snd (AlarmSystem_output (alarm1\<lparr>motion_detected := True\<rparr>) [] world1))) = [4] \<and>
   map (\<lambda>(p, dic). (dic ''door_open'', dic ''motion'', dic ''photo''))
     (fst (snd (AlarmSystem_output (alarm1\<lparr>motion_detected := True\<rparr>) [] world1))) =
     [(Some (PBool True), Some (PStr ''Wed Nov  4 01:22:00 2026''), Some (PPhoto 1))] \<and>
   album (snd (snd (AlarmSystem_output (alarm1\<lparr>motion_detected := True\<rparr>) [] world1))) = [1, 0] \<and>
   map (\<lambda>(p, dic). (dic ''door_open'', dic ''motion'', dic ''photo''))
     (fst (snd (AlarmSystem_output alarm1 [] world1))) =
     [(Some (PBool True), None, Some (PPhoto 0))]"
proof -
  obtain a1 db1 w1 where r1:
    "AlarmSystem_output (alarm1\<lparr>motion_detected := True\<rparr>) [] world1 = (a1, db1, w1)"
    using prod_cases3 by blast
  obtain a2 db2 w2 where r2: "AlarmSystem_output alarm1 [] world1 = (a2, db2, w2)"
    using prod_cases3 by blast
  from AlarmSystem_output_report [OF r1]
  have "map fst db1 = [4] \<and>
        map (\<lambda>(p, dic). (dic ''door_open'', dic ''motion'', dic ''photo'')) db1 =
          [(Some (PBool True), Some (PStr ''Wed Nov  4 01:22:00 2026''), Some (PPhoto 1))] \<and>
        album w1 = [1, 0]"
    by (auto simp add: alarm1_def world1_def)
  moreover from AlarmSystem_output_report [OF r2]
  have "map (\<lambda>(p, dic). (dic ''door_open'', dic ''motion'', dic ''photo'')) db2 =
          [(Some (PBool True), None, Some (PPhoto 0))]"
    by (auto simp add: alarm1_def world1_def get_newest_photo_def)
  ultimately show ?thesis by (simp add: r1 r2)
qed

text \<open>
  C7 as it is worded, with a capture that does not interact with the rate limiting of
  alert mode, fails. \<open>alarm1\<close> took its last photo at 1001 and the clock reads 1005.
  Alert mode run now captures photo 1. If \<open>output\<close> runs first, with motion detected, its
  capture sets \<open>last_picture_taken\<close> to 1005, and alert mode run after it captures nothing:
  the album still ends with photo 1, the one \<open>output\<close> took.
\<close>

theorem AlarmSystem_output_report_counterexample:
  "album (snd (alert_mode (alarm1\<lparr>motion_detected := True\<rparr>) (world1\<lparr>clock := (\<lambda>_. 1005)\<rparr>))) =
     [1, 0] \<and>
   last_picture_taken (fst (AlarmSystem_output (alarm1\<lparr>motion_detected := True\<rparr>) []
     (world1\<lparr>clock := (\<lambda>_. 1005)\<rparr>))) = Some 1005 \<and>
   album (snd (snd (AlarmSystem_output (alarm1\<lparr>motion_detected := True\<rparr>) []
     (world1\<lparr>clock := (\<lambda>_. 1005)\<rparr>)))) = [1, 0] \<and>
   album (snd (alert_mode
     (fst (AlarmSystem_output (alarm1\<lparr>motion_detected := True\<rparr>) []
        (world1\<lparr>clock := (\<lambda>_. 1005)\<rparr>)))
     (snd (snd (AlarmSystem_output (alarm1\<lparr>motion_detected := True\<rparr>) []
        (world1\<lparr>clock := (\<lambda>_. 1005)\<rparr>)))))) = [1, 0]"
  by (simp add: eval_defs AlarmSystem_output_def time_strftime_def database_update_def
      get_newest_photo_def)

subsection \<open>The cached reading of an input device\<close>

text \<open>
  C8. For every call of \<open>MotionSensor.output\<close>: if the sensor is active, \<open>data\<close> becomes
  the clock's reading at that call, in whole seconds; if it is inactive, \<open>data\<close> stays
  what it was. Either way that value is what the call stores under the sensor's pin.
\<close>

theorem MotionSensor_output_sticky:
  assumes "MotionSensor_output s db w = (s', db', w')"
  shows "data s' = (if SimpleInput_is_active s w then PInt (clock w (reads w)) else data s) \<and>
         db' = db @ [(pin s, [''data'' \<mapsto> data s'])]"
  using assms
  by (auto simp: MotionSensor_output_def SimpleInput_output_def RemoteAbstract_output_def
      database_update_def time_time_def Let_def split: if_splits)

text \<open>The motion sensor of \<open>alarm1\<close>, holding an earlier reading, polled once while
  active and once while inactive.\<close>

theorem MotionSensor_output_sticky_witness:
  "data (fst (MotionSensor_output ((motion alarm1)\<lparr>data := PInt 900\<rparr>) []
           (world1\<lparr>sensed := (\<lambda>_. True)\<rparr>))) = PInt 1002 \<and>
   data (fst (MotionSensor_output ((motion alarm1)\<lparr>data := PInt 900\<rparr>) [] world1)) = PInt 900"
proof -
  obtain s1 db1 w1 where r1:
    "MotionSensor_output ((motion alarm1)\<lparr>data := PInt 900\<rparr>) []
       (world1\<lparr>sensed := (\<lambda>_. True)\<rparr>) = (s1, db1, w1)"
    using prod_cases3 by blast
  obtain s2 db2 w2 where r2:
    "MotionSensor_output ((motion alarm1)\<lparr>data := PInt 900\<rparr>) [] world1 = (s2, db2, w2)"
    using prod_cases3 by blast
  have "data s1 = PInt 1002"
    using MotionSensor_output_sticky [OF r1]
    by (simp add: SimpleInput_is_active_def gpio_is_active_def alarm1_def world1_def)
  moreover have "data s2 = PInt 900"
    using MotionSensor_output_sticky [OF r2]
    by (simp add: SimpleInput_is_active_def gpio_is_active_def alarm1_def world1_def)
  ultimately show ?thesis
    by (simp add: r1 r2)
qed

text \<open>
  C9. For a switch or a motion sensor, \<open>input\<close> never changes the cached \<open>data\<close>,
  whether it keeps the pin, re-binds it or raises; neither does \<open>_change_pin\<close>, and
  neither does the alarm's \<open>input\<close> to the \<open>data\<close> of its switch and of its motion
  sensor. Only \<open>output\<close> writes it (C8 for the motion sensor).
\<close>

theorem input_keeps_data:
  "data (fst (snd (RemoteAbstract_input (s::SimpleInput) dat w))) = data s \<and>
   data (fst (snd (RemoteAbstract_change_pin (s::SimpleInput) p w))) = data s \<and>
   data (switch (fst (snd (AlarmSystem_input a adat w)))) = data (switch a) \<and>
   data (motion (fst (snd (AlarmSystem_input a adat w)))) = data (motion a)"
  using AlarmSystem_input_inputs [of a adat w]
  by (auto simp: RemoteAbstract_input_data RemoteAbstract_change_pin_data)

theorem input_keeps_data_witness:
  "data (fst (snd (RemoteAbstract_input ((switch alarm1)\<lparr>data := PStr ''ON''\<rparr>)
                     \<lparr>d_pin = 7, d_keep_on = None\<rparr> world1))) = PStr ''ON'' \<and>
   pin (fst (snd (RemoteAbstract_input ((switch alarm1)\<lparr>data := PStr ''ON''\<rparr>)
                     \<lparr>d_pin = 7, d_keep_on = None\<rparr> world1))) = 7"
  using input_keeps_data [of "(switch alarm1)\<lparr>data := PStr ''ON''\<rparr>"
      "\<lparr>d_pin = 7, d_keep_on = None\<rparr>" world1]
  by (simp add: alarm1_def world1_def RemoteAbstract_input_def RemoteAbstract_change_pin_def
      RemoteAbstract_close_def gpio_open_def gpio_close_def exclusive_platform_def Let_def)

subsection \<open>The constructor of Switch without hardware\<close>

text \<open>
  C10. With \<open>__debug__\<close> false, constructing a \<open>Switch\<close> from any configuration raises
  an \<open>AttributeError\<close> and never yields a device: the branch calls \<open>super().__init\<close>,
  whose mangled name \<open>_Switch__init\<close> no superclass of \<open>Switch\<close> defines, whereas
  \<open>__init__\<close> is found in \<open>SimpleInput\<close>.
\<close>

theorem Switch_init_without_hardware:
  "super_lookup (mangle ''Switch'' ''__init'') = None \<and>
   super_lookup ''__init__'' = Some ''SimpleInput'' \<and>
   Switch_init False dic w = (Inl (AttributeError ''_Switch__init''), w) \<and>
   (\<nexists>s. fst (Switch_init False dic w) = Inr s)"
  by (simp add: super_lookup_def Switch_supers_def mangle_def Switch_init_def)

theorem Switch_init_without_hardware_witness:
  "fst (Switch_init False \<lparr>d_pin = 4, d_keep_on = None\<rparr> world0) =
     Inl (AttributeError ''_Switch__init'') \<and>
   open_devices (snd (Switch_init False \<lparr>d_pin = 4, d_keep_on = None\<rparr> world0)) = [] \<and>
   map dev_pin (open_devices (snd (Switch_init True \<lparr>d_pin = 4, d_keep_on = None\<rparr> world0))) = [4]"
  using Switch_init_without_hardware [of "\<lparr>d_pin = 4, d_keep_on = None\<rparr>" world0]
  by (simp add: world0_def Switch_init_def SimpleInput_init_def RemoteAbstract_init_def
      gpio_open_def exclusive_platform_def Let_def)

end
